theory Spec2Isabelle
  imports Main
begin

section \<open>Resources, cleanup routines and the outside world\<close>

text \<open>
  \<^verbatim>\<open>ScopedLocalRef<Deleter, Resources...>\<close> stores a \<^verbatim>\<open>std::tuple<Resources...>\<close>. The
  resources the header is written for are pointers (\<^verbatim>\<open>FILE*\<close>, \<^verbatim>\<open>void*\<close>, \<^verbatim>\<open>int*\<close>) and
  plain handles such as file descriptors and counters. A tuple is a list of values, each
  tagged with the shape of its type: \<open>Ptr a\<close> is a pointer holding the address \<open>a\<close>
  (\<open>Ptr 0\<close> is \<^verbatim>\<open>nullptr\<close>), \<open>Val n\<close> is a value of a non-pointer scalar type.
  Resources of class type, with move constructors of their own, are not covered.
\<close>

datatype res = Ptr nat | Val int

text \<open>
  \<^verbatim>\<open>ValidityCheck<T>::check\<close>: the primary template returns \<^verbatim>\<open>true\<close>; the specialisations
  for \<^verbatim>\<open>T*\<close> and \<^verbatim>\<open>T* const&\<close> return \<^verbatim>\<open>p != nullptr\<close>.
\<close>

fun ValidityCheck :: "res \<Rightarrow> bool" where
  "ValidityCheck (Ptr p) = (p \<noteq> 0)"
| "ValidityCheck (Val v) = True"

text \<open>
  \<^verbatim>\<open>m_resources = {}\<close> assigns a value-initialised tuple: every pointer becomes
  \<^verbatim>\<open>nullptr\<close>, every scalar becomes zero.
\<close>

fun value_init :: "res \<Rightarrow> res" where
  "value_init (Ptr p) = Ptr 0"
| "value_init (Val v) = Val 0"

text \<open>
  \<^verbatim>\<open>std::move\<close> of a tuple moves element by element. Moving a pointer or a scalar copies
  it: \<open>moved_from r\<close> is what the source element holds afterwards.
\<close>

fun moved_from :: "res \<Rightarrow> res" where
  "moved_from (Ptr p) = Ptr p"
| "moved_from (Val v) = Val v"

text \<open>
  What a C++ function can throw. The guard itself only throws \<^verbatim>\<open>std::logic_error\<close>; a
  cleanup routine can throw anything.
\<close>

datatype exn = Logic_error string | Other_exception nat

text \<open>
  The cleanup routine is a callable supplied by the caller. All the guard does with it is
  store it, move it and call it on the resources. It is modelled by an identity
  \<open>del_id\<close> and by how a call on given arguments ends: \<open>None\<close> when it returns,
  \<open>Some e\<close> when it throws \<open>e\<close>. Moving a function pointer or a lambda leaves the source
  callable as it was.
\<close>

record deleter =
  del_id :: nat
  del_body :: "res list \<Rightarrow> exn option"

text \<open>
  The world outside the guard: the calls made to cleanup routines so far, oldest first,
  each with the routine that was called and its arguments in order, and the lines written
  to \<^verbatim>\<open>std::cerr\<close>.
\<close>

record world =
  invocations :: "(deleter \<times> res list) list"
  cerr :: "string list"

text \<open>\<^verbatim>\<open>std::apply(m_deleter, m_resources)\<close>: one call, with the tuple's elements in order.\<close>

definition apply_deleter :: "deleter \<Rightarrow> res list \<Rightarrow> world \<Rightarrow> exn option \<times> world" where
  "apply_deleter d rs w =
     (del_body d rs, w\<lparr>invocations := invocations w @ [(d, rs)]\<rparr>)"

section \<open>The guard\<close>

record ScopedLocalRef =
  m_resources :: "res list"
  m_deleter :: deleter
  m_released :: bool

text \<open>
  The constructor stores the routine and the resources; \<^verbatim>\<open>m_released\<close> has the default
  member initialiser \<^verbatim>\<open>false\<close>. \<^verbatim>\<open>make_scoped_ref\<close> forwards to it.
\<close>

definition make_scoped_ref :: "deleter \<Rightarrow> res list \<Rightarrow> ScopedLocalRef" where
  "make_scoped_ref d args =
     \<lparr>m_resources = args, m_deleter = d, m_released = False\<rparr>"

text \<open>
  \<^verbatim>\<open>cleanup()\<close>. The \<^verbatim>\<open>catch (...)\<close> handler takes every exception of the call and
  writes one line to \<^verbatim>\<open>std::cerr\<close>; the two assignments after the \<^verbatim>\<open>try\<close> block run in
  both cases. The function is \<^verbatim>\<open>noexcept\<close> and has no exceptional result.
\<close>

definition cleanup :: "ScopedLocalRef \<Rightarrow> world \<Rightarrow> ScopedLocalRef \<times> world" where
  "cleanup g w =
     (if \<not> m_released g then
        let (thrown, w1) = apply_deleter (m_deleter g) (m_resources g) w;
            w2 = (case thrown of
                    None \<Rightarrow> w1
                  | Some e \<Rightarrow> w1\<lparr>cerr := cerr w1 @ [''Cleanup error - potential leak'']\<rparr>)
        in (g\<lparr>m_resources := map value_init (m_resources g), m_released := True\<rparr>, w2)
      else (g, w))"

text \<open>\<^verbatim>\<open>release()\<close> calls \<^verbatim>\<open>cleanup()\<close>.\<close>

definition release :: "ScopedLocalRef \<Rightarrow> world \<Rightarrow> ScopedLocalRef \<times> world" where
  "release g w = cleanup g w"

text \<open>
  The destructor calls \<^verbatim>\<open>cleanup()\<close>; afterwards the object is gone, and what is left is
  the world.
\<close>

definition destructor :: "ScopedLocalRef \<Rightarrow> world \<Rightarrow> world" where
  "destructor g w = snd (cleanup g w)"

text \<open>
  The move constructor builds a new guard from \<open>other\<close>: the members are moved in
  declaration order, then \<^verbatim>\<open>other.m_released = true\<close>. The result is the new guard and
  what is left of \<open>other\<close>.
\<close>

definition move_ctor :: "ScopedLocalRef \<Rightarrow> world \<Rightarrow> (ScopedLocalRef \<times> ScopedLocalRef) \<times> world" where
  "move_ctor other w =
     ((\<lparr>m_resources = m_resources other,
        m_deleter = m_deleter other,
        m_released = m_released other\<rparr>,
       other\<lparr>m_resources := map moved_from (m_resources other), m_released := True\<rparr>),
      w)"

subsection \<open>Accessors\<close>

text \<open>
  \<^verbatim>\<open>get\<close>, \<^verbatim>\<open>try_get\<close> and the conversion to \<^verbatim>\<open>bool\<close> are \<^verbatim>\<open>const\<close> member functions
  that call nothing but \<^verbatim>\<open>std::get\<close>: they are functions of the guard alone. An
  exception is the result \<open>Inl\<close>. The index \<open>I\<close> of the templates is checked by
  \<^verbatim>\<open>static_assert(I < sizeof...(Resources))\<close>: a program with an index out of range does
  not compile, and \<open>valid_index\<close> is that check.
\<close>

definition valid_index :: "nat \<Rightarrow> ScopedLocalRef \<Rightarrow> bool" where
  "valid_index I g = (I < length (m_resources g))"

definition get :: "ScopedLocalRef \<Rightarrow> exn + res" where
  "get g =
     (if m_released g then Inl (Logic_error ''Resource released'')
      else Inr (m_resources g ! 0))"

definition get_at :: "nat \<Rightarrow> ScopedLocalRef \<Rightarrow> exn + res" where
  "get_at I g =
     (if m_released g then Inl (Logic_error ''Resource released'')
      else Inr (m_resources g ! I))"

definition try_get :: "ScopedLocalRef \<Rightarrow> res option" where
  "try_get g = (if m_released g then None else Some (m_resources g ! 0))"

definition try_get_at :: "nat \<Rightarrow> ScopedLocalRef \<Rightarrow> res option" where
  "try_get_at I g = (if m_released g then None else Some (m_resources g ! I))"

text \<open>
  The mutating members return their result together with the guard and the world as
  they are when the call ends, also when it ends by an exception.
\<close>

definition set_first ::
  "res \<Rightarrow> ScopedLocalRef \<Rightarrow> world \<Rightarrow> (exn + unit) \<times> ScopedLocalRef \<times> world" where
  "set_first new_resource g w =
     (if m_released g then (Inl (Logic_error ''Resource released''), g, w)
      else (Inr (), g\<lparr>m_resources := (m_resources g)[0 := new_resource]\<rparr>, w))"

definition set_at ::
  "nat \<Rightarrow> res \<Rightarrow> ScopedLocalRef \<Rightarrow> world \<Rightarrow> (exn + unit) \<times> ScopedLocalRef \<times> world" where
  "set_at I new_resource g w =
     (if m_released g then (Inl (Logic_error ''Resource released''), g, w)
      else (Inr (), g\<lparr>m_resources := (m_resources g)[I := new_resource]\<rparr>, w))"

definition try_set ::
  "res \<Rightarrow> ScopedLocalRef \<Rightarrow> world \<Rightarrow> int \<times> ScopedLocalRef \<times> world" where
  "try_set new_resource g w =
     (if m_released g then (1, g, w)
      else (0, g\<lparr>m_resources := (m_resources g)[0 := new_resource]\<rparr>, w))"

definition try_set_at ::
  "nat \<Rightarrow> res \<Rightarrow> ScopedLocalRef \<Rightarrow> world \<Rightarrow> int \<times> ScopedLocalRef \<times> world" where
  "try_set_at I new_resource g w =
     (if m_released g then (1, g, w)
      else (0, g\<lparr>m_resources := (m_resources g)[I := new_resource]\<rparr>, w))"

text \<open>
  \<^verbatim>\<open>explicit operator bool()\<close>: the fold of \<^verbatim>\<open>ValidityCheck<...>::check\<close> over the tuple
  with \<^verbatim>\<open>&&\<close>, behind \<^verbatim>\<open>!m_released\<close>.
\<close>

definition operator_bool :: "ScopedLocalRef \<Rightarrow> bool" where
  "operator_bool g = (\<not> m_released g \<and> list_all ValidityCheck (m_resources g))"

text \<open>
  \<^verbatim>\<open>steal()\<close> sets the flag and returns the tuple, moved out of the guard.
\<close>

definition steal ::
  "ScopedLocalRef \<Rightarrow> world \<Rightarrow> (exn + res list) \<times> ScopedLocalRef \<times> world" where
  "steal g w =
     (if m_released g then (Inl (Logic_error ''Already released''), g, w)
      else (Inr (m_resources g),
            g\<lparr>m_released := True, m_resources := map moved_from (m_resources g)\<rparr>,
            w))"

subsection \<open>Move assignment, on a store of guards\<close>

text \<open>
  \<^verbatim>\<open>operator=(ScopedLocalRef&& other)\<close> compares the addresses \<^verbatim>\<open>this\<close> and
  \<^verbatim>\<open>&other\<close>, so the two guards live in a store, and the statements of the body read and
  write it one after the other.
\<close>

type_synonym addr = nat

record state =
  heap :: "addr \<Rightarrow> ScopedLocalRef"
  env :: world

definition cleanup_at :: "addr \<Rightarrow> state \<Rightarrow> state" where
  "cleanup_at a s =
     (let (g, w) = cleanup (heap s a) (env s)
      in s\<lparr>heap := (heap s)(a := g), env := w\<rparr>)"

definition upd :: "addr \<Rightarrow> (ScopedLocalRef \<Rightarrow> ScopedLocalRef) \<Rightarrow> state \<Rightarrow> state" where
  "upd a f s = s\<lparr>heap := (heap s)(a := f (heap s a))\<rparr>"

definition move_assign :: "addr \<Rightarrow> addr \<Rightarrow> state \<Rightarrow> state" where
  "move_assign this other s =
     (if this \<noteq> other then
        let s1 = cleanup_at this s;
            s2 = upd this (\<lambda>g. g\<lparr>m_resources := m_resources (heap s1 other)\<rparr>) s1;
            s3 = upd other (\<lambda>g. g\<lparr>m_resources := map moved_from (m_resources g)\<rparr>) s2;
            s4 = upd this (\<lambda>g. g\<lparr>m_deleter := m_deleter (heap s3 other)\<rparr>) s3;
            s5 = upd this (\<lambda>g. g\<lparr>m_released := m_released (heap s4 other)\<rparr>) s4
        in upd other (\<lambda>g. g\<lparr>m_released := True\<rparr>) s5
      else s)"

subsection \<open>The life of one guard\<close>

text \<open>
  What a program can do to one guard between its construction and its destruction. The
  \<^verbatim>\<open>const\<close> members hand their result (or their exception) to the caller and leave the
  guard and the world as they are. \<open>MovedFrom\<close> is the guard being the argument of a move
  constructor (being the right-hand side of a move assignment to another guard leaves it
  in the same state). \<open>MoveAssignFrom src\<close> is \<^verbatim>\<open>g = std::move(src)\<close> for another guard
  \<open>src\<close>, \<open>SelfMoveAssign\<close> is \<^verbatim>\<open>g = std::move(g)\<close>; both run \<open>move_assign\<close> on
  a store that holds the guard at address 0 (and \<open>src\<close> at address 1).
\<close>

datatype op =
    Get nat | TryGet nat | Bool
  | Set nat res | TrySet nat res
  | Release | Steal
  | MovedFrom | MoveAssignFrom ScopedLocalRef | SelfMoveAssign

fun step :: "op \<Rightarrow> ScopedLocalRef \<times> world \<Rightarrow> ScopedLocalRef \<times> world" where
  "step (Get I) (g, w) = (g, w)"
| "step (TryGet I) (g, w) = (g, w)"
| "step Bool (g, w) = (g, w)"
| "step (Set I v) (g, w) = snd (set_at I v g w)"
| "step (TrySet I v) (g, w) = snd (try_set_at I v g w)"
| "step Release (g, w) = release g w"
| "step Steal (g, w) = snd (steal g w)"
| "step MovedFrom (g, w) = (snd (fst (move_ctor g w)), snd (move_ctor g w))"
| "step (MoveAssignFrom src) (g, w) =
     (let s = move_assign 0 1 \<lparr>heap = (\<lambda>a. if a = 0 then g else src), env = w\<rparr>
      in (heap s 0, env s))"
| "step SelfMoveAssign (g, w) =
     (let s = move_assign 0 0 \<lparr>heap = (\<lambda>a. g), env = w\<rparr>
      in (heap s 0, env s))"

fun run :: "op list \<Rightarrow> ScopedLocalRef \<times> world \<Rightarrow> ScopedLocalRef \<times> world" where
  "run [] c = c"
| "run (x # xs) c = run xs (step x c)"

text \<open>The whole life: the operations in order, then the destructor.\<close>

definition lifetime :: "ScopedLocalRef \<Rightarrow> op list \<Rightarrow> world \<Rightarrow> world" where
  "lifetime g ops w = (case run ops (g, w) of (g', w') \<Rightarrow> destructor g' w')"


subsection \<open>Example values\<close>

text \<open>
  A cleanup routine that returns, one that throws, and the world before anything has
  happened.
\<close>

definition close_fn :: deleter where
  "close_fn = \<lparr>del_id = 1, del_body = (\<lambda>rs. None)\<rparr>"

definition failing_fn :: deleter where
  "failing_fn = \<lparr>del_id = 2, del_body = (\<lambda>rs. Some (Other_exception 0))\<rparr>"

definition w0 :: world where
  "w0 = \<lparr>invocations = [], cerr = []\<rparr>"

text \<open>
  A store with a live guard at address 0, another live guard at address 1, and a third
  guard everywhere else.
\<close>

definition two_guards :: state where
  "two_guards =
     \<lparr>heap = (\<lambda>a. if a = 0 then make_scoped_ref close_fn [Val 5]
                   else if a = 1 then make_scoped_ref failing_fn [Val 7]
                   else make_scoped_ref close_fn [Ptr 1]),
      env = w0\<rparr>"




text \<open>
  How many of the operations assign into this guard another guard that is not released.
\<close>

fun live_moves_in :: "op list \<Rightarrow> nat" where
  "live_moves_in [] = 0"
| "live_moves_in (MoveAssignFrom src # xs) =
     (if m_released src then 0 else 1) + live_moves_in xs"
| "live_moves_in (x # xs) = live_moves_in xs"

text \<open>
  The calls made so far, plus the one the guard still owes when it is not released.
\<close>

definition pending :: "ScopedLocalRef \<times> world \<Rightarrow> nat" where
  "pending c = length (invocations (snd c)) + (if m_released (fst c) then 0 else 1)"

section \<open>Properties\<close>

subsection \<open>Facts about the operations\<close>

lemma moved_from_id: "map moved_from rs = rs"
proof (induction rs)
  case Nil
  show ?case by simp
next
  case (Cons r rs)
  then show ?case by (cases r) simp_all
qed

lemma guard_all_fields:
  "g\<lparr>m_resources := a, m_deleter := b, m_released := c\<rparr> =
   \<lparr>m_resources = a, m_deleter = b, m_released = c\<rparr>"
  by (cases g) simp

lemma cleanup_released: "m_released g \<Longrightarrow> cleanup g w = (g, w)"
  by (simp add: cleanup_def)

lemma cleanup_live:
  "\<not> m_released g \<Longrightarrow>
   cleanup g w =
     (g\<lparr>m_resources := map value_init (m_resources g), m_released := True\<rparr>,
      w\<lparr>invocations := invocations w @ [(m_deleter g, m_resources g)],
        cerr := cerr w @
          (case del_body (m_deleter g) (m_resources g) of
             None \<Rightarrow> [] | Some e \<Rightarrow> [''Cleanup error - potential leak''])\<rparr>)"
  by (simp add: cleanup_def apply_deleter_def split: option.split)

lemma cleanup_marks_released: "m_released (fst (cleanup g w))"
  by (cases "m_released g") (simp_all add: cleanup_released cleanup_live)

lemma cleanup_count:
  "invocations (snd (cleanup g w)) =
     invocations w @ (if m_released g then [] else [(m_deleter g, m_resources g)])"
  by (simp add: cleanup_released cleanup_live)

lemma destructor_live:
  "\<not> m_released g \<Longrightarrow>
   invocations (destructor g w) = invocations w @ [(m_deleter g, m_resources g)]"
  by (simp add: destructor_def cleanup_live)

lemma destructor_released: "m_released g \<Longrightarrow> destructor g w = w"
  by (simp add: destructor_def cleanup_released)

lemma destructor_count: "length (invocations (destructor g w)) = pending (g, w)"
  by (simp add: destructor_def cleanup_count pending_def)

text \<open>
  Move assignment between two different guards, in one step: the world is what the
  cleanup of the destination leaves, the destination holds the three members of the
  source, the source is as it was but for its flag.
\<close>

lemma move_assign_distinct:
  "this \<noteq> other \<Longrightarrow>
   move_assign this other s =
     s\<lparr>heap := (heap s)
          (this := \<lparr>m_resources = m_resources (heap s other),
                    m_deleter = m_deleter (heap s other),
                    m_released = m_released (heap s other)\<rparr>,
           other := (heap s other)\<lparr>m_released := True\<rparr>),
       env := snd (cleanup (heap s this) (env s))\<rparr>"
  by (cases "cleanup (heap s this) (env s)")
     (simp add: move_assign_def cleanup_at_def upd_def Let_def moved_from_id fun_upd_twist
        guard_all_fields)

lemma move_assign_self: "move_assign a a s = s"
  by (simp add: move_assign_def)

text \<open>
  The right-hand side of a move assignment is left as the argument of a move constructor
  is.
\<close>

lemma move_assign_source_as_move_ctor:
  "this \<noteq> other \<Longrightarrow>
   heap (move_assign this other s) other = snd (fst (move_ctor (heap s other) w))"
  by (simp add: move_assign_distinct move_ctor_def moved_from_id)

lemma step_move_assign_from:
  "step (MoveAssignFrom src) (g, w) =
     (\<lparr>m_resources = m_resources src, m_deleter = m_deleter src, m_released = m_released src\<rparr>,
      snd (cleanup g w))"
  by (simp add: move_assign_distinct)



text \<open>
  No operation but the assignment of another guard raises \<open>pending\<close>: a call to the
  cleanup routine is paid for by the flag.
\<close>

lemma step_owed: "pending (step x c) \<le> pending c + live_moves_in [x]"
proof (cases c)
  case (Pair g w)
  show ?thesis
  proof (cases x)
    case Release
    with Pair show ?thesis
      by (simp add: pending_def release_def cleanup_count cleanup_marks_released)
  next
    case (MoveAssignFrom src)
    with Pair show ?thesis
      by (simp add: pending_def step_move_assign_from cleanup_count del: step.simps)
  qed (use Pair in \<open>simp_all add: pending_def set_at_def try_set_at_def steal_def
         move_ctor_def move_assign_self\<close>)
qed

lemma live_moves_in_Cons: "live_moves_in (x # xs) = live_moves_in [x] + live_moves_in xs"
  by (cases x) simp_all

lemma run_owed: "pending (run ops c) \<le> pending c + live_moves_in ops"
proof (induction ops arbitrary: c)
  case Nil
  show ?case by simp
next
  case (Cons x xs)
  have "pending (run (x # xs) c) \<le> pending (step x c) + live_moves_in xs"
    using Cons.IH [of "step x c"] by simp
  also have "\<dots> \<le> pending c + live_moves_in [x] + live_moves_in xs"
    using step_owed [of x c] by simp
  finally show ?case
    by (simp add: live_moves_in_Cons [of x xs])
qed

text \<open>No operation takes a call back: the record of calls only grows.\<close>

lemma step_extends: "\<exists>ys. invocations (snd (step x c)) = invocations (snd c) @ ys"
proof (cases c)
  case (Pair g w)
  show ?thesis
  proof (cases x)
    case Release
    with Pair show ?thesis
      by (simp add: release_def cleanup_count)
  next
    case (MoveAssignFrom src)
    with Pair show ?thesis
      by (simp add: step_move_assign_from cleanup_count del: step.simps)
  qed (use Pair in \<open>simp_all add: set_at_def try_set_at_def steal_def
         move_ctor_def move_assign_self\<close>)
qed

lemma run_extends: "\<exists>ys. invocations (snd (run ops c)) = invocations (snd c) @ ys"
proof (induction ops arbitrary: c)
  case Nil
  show ?case by simp
next
  case (Cons x xs)
  obtain ys where a: "invocations (snd (step x c)) = invocations (snd c) @ ys"
    using step_extends by blast
  obtain zs where b: "invocations (snd (run xs (step x c))) = invocations (snd (step x c)) @ zs"
    using Cons.IH by blast
  show ?case
    using a b by simp
qed

lemma lifetime_extends: "\<exists>ys. invocations (lifetime g ops w) = invocations w @ ys"
proof -
  obtain g' w' where r: "run ops (g, w) = (g', w')"
    by (cases "run ops (g, w)")
  obtain ys where a: "invocations w' = invocations w @ ys"
    using run_extends [of ops "(g, w)"] r by auto
  show ?thesis
    by (simp add: lifetime_def r destructor_def cleanup_count a)
qed

lemma lifetime_owed:
  "length (invocations (lifetime g ops w)) \<le>
     length (invocations w) + (if m_released g then 0 else 1) + live_moves_in ops"
proof -
  obtain g' w' where r: "run ops (g, w) = (g', w')"
    by (cases "run ops (g, w)")
  have "length (invocations (lifetime g ops w)) = pending (run ops (g, w))"
    by (simp add: lifetime_def r destructor_count)
  also have "\<dots> \<le> pending (g, w) + live_moves_in ops"
    by (rule run_owed)
  finally show ?thesis
    by (simp add: pending_def)
qed








subsection \<open>The claims\<close>




text \<open>
  C2, as stated, fails: a guard that owns \<open>Val 5\<close> and is assigned another live guard
  owning \<open>Val 7\<close> calls the cleanup routine when it is assigned to and again when it is
  destroyed, twice in one life.
\<close>

theorem move_assign_rearms_guard:
  "invocations (lifetime (make_scoped_ref close_fn [Val 5])
                  [MoveAssignFrom (make_scoped_ref close_fn [Val 7])] w0)
     = [(close_fn, [Val 5]), (close_fn, [Val 7])]"
  by (simp add: lifetime_def step_move_assign_from destructor_def cleanup_def apply_deleter_def
        make_scoped_ref_def w0_def close_fn_def del: step.simps)

text \<open>
  C2, amended. Over the whole life of a guard, whatever state it starts in and whatever
  is done to it (reads, stores, any number of \<^verbatim>\<open>release()\<close> calls, \<^verbatim>\<open>steal()\<close>, being
  moved from, assignments, destruction), the calls made are the calls made before
  followed by new ones, and the new ones are at most one for the resources it starts with
  (none when it starts released), plus at most one for every move assignment into it of
  another guard that is not released. So the cleanup routine is called at most once on a
  guard into which no live guard is move-assigned. A second \<^verbatim>\<open>release()\<close> after a first
  one calls nothing and changes nothing.
\<close>

theorem cleanup_at_most_once_per_ownership:
  "(\<exists>new. invocations (lifetime g ops w) = invocations w @ new
          \<and> length new \<le> (if m_released g then 0 else 1) + live_moves_in ops)
   \<and> release (fst (release g w)) (snd (release g w)) = release g w"
proof
  obtain new where n: "invocations (lifetime g ops w) = invocations w @ new"
    using lifetime_extends by blast
  have "length new \<le> (if m_released g then 0 else 1) + live_moves_in ops"
    using lifetime_owed [of g ops w] n by simp
  with n show "\<exists>new. invocations (lifetime g ops w) = invocations w @ new
          \<and> length new \<le> (if m_released g then 0 else 1) + live_moves_in ops"
    by blast
next
  show "release (fst (release g w)) (snd (release g w)) = release g w"
    by (cases "m_released g") (simp_all add: release_def cleanup_released cleanup_live)
qed

theorem cleanup_at_most_once_per_ownership_witness:
  "(\<exists>new. invocations (lifetime (make_scoped_ref close_fn [Val 5])
                          [Get 0, Release, Get 0, Release,
                           MoveAssignFrom (fst (release (make_scoped_ref close_fn [Val 7]) w0)),
                           MovedFrom] w0) = invocations w0 @ new
          \<and> length new \<le> 1)
   \<and> release (fst (release (make_scoped_ref close_fn [Val 5]) w0))
              (snd (release (make_scoped_ref close_fn [Val 5]) w0))
       = release (make_scoped_ref close_fn [Val 5]) w0"
  using cleanup_at_most_once_per_ownership
          [of "make_scoped_ref close_fn [Val 5]"
              "[Get 0, Release, Get 0, Release,
                MoveAssignFrom (fst (release (make_scoped_ref close_fn [Val 7]) w0)),
                MovedFrom]" w0]
        cleanup_marks_released [of "make_scoped_ref close_fn [Val 7]" w0]
  by (simp add: make_scoped_ref_def release_def)

text \<open>
  C3, as stated, fails: after a move construction from a guard holding the pointer
  \<open>Ptr 1\<close> and the count \<open>Val 3\<close>, the source still stores these two values, not the
  null pointer and zero.
\<close>

theorem move_ctor_source_keeps_values:
  "m_resources (snd (fst (move_ctor (make_scoped_ref close_fn [Ptr 1, Val 3]) w0)))
     \<noteq> map value_init [Ptr 1, Val 3]"
  by (simp add: move_ctor_def make_scoped_ref_def)

text \<open>
  C3, amended. Move construction from a guard that is not released gives the new guard
  the resources, the cleanup routine and the (false) flag of the source, leaves the source
  with its flag set and everything else as it was (its stored resources are not reset),
  and calls nothing: the world is unchanged.
\<close>

theorem move_ctor_transfers:
  assumes "\<not> m_released g"
  shows "move_ctor g w =
           ((\<lparr>m_resources = m_resources g, m_deleter = m_deleter g, m_released = False\<rparr>,
             g\<lparr>m_released := True\<rparr>),
            w)"
  using assms by (simp add: move_ctor_def moved_from_id)

theorem move_ctor_transfers_witness:
  "\<not> m_released (make_scoped_ref close_fn [Ptr 1, Val 3])
   \<and> move_ctor (make_scoped_ref close_fn [Ptr 1, Val 3]) w0 =
       ((\<lparr>m_resources = [Ptr 1, Val 3], m_deleter = close_fn, m_released = False\<rparr>,
         \<lparr>m_resources = [Ptr 1, Val 3], m_deleter = close_fn, m_released = True\<rparr>),
        w0)"
  using move_ctor_transfers [of "make_scoped_ref close_fn [Ptr 1, Val 3]" w0]
  by (simp add: make_scoped_ref_def)

text \<open>
  C4. On a released guard, \<^verbatim>\<open>get()\<close>, \<^verbatim>\<open>get<I>()\<close>, \<^verbatim>\<open>set(v)\<close>, \<^verbatim>\<open>set<I>(v)\<close> and
  \<^verbatim>\<open>steal()\<close> throw \<^verbatim>\<open>std::logic_error\<close>, while \<^verbatim>\<open>try_get()\<close> and \<^verbatim>\<open>try_get<I>()\<close>
  return the empty optional and \<^verbatim>\<open>try_set(v)\<close> and \<^verbatim>\<open>try_set<I>(v)\<close> return 1. On a
  guard that is not released, with indices the \<^verbatim>\<open>static_assert\<close> accepts, \<^verbatim>\<open>get\<close> and
  \<^verbatim>\<open>try_get\<close> return the resource stored at the position asked for, and \<^verbatim>\<open>try_set\<close>
  returns 0.
\<close>

theorem access_after_release:
  "(m_released g \<longrightarrow>
      get g = Inl (Logic_error ''Resource released'')
    \<and> get_at I g = Inl (Logic_error ''Resource released'')
    \<and> fst (set_first v g w) = Inl (Logic_error ''Resource released'')
    \<and> fst (set_at I v g w) = Inl (Logic_error ''Resource released'')
    \<and> fst (steal g w) = Inl (Logic_error ''Already released'')
    \<and> try_get g = None
    \<and> try_get_at I g = None
    \<and> fst (try_set v g w) = 1
    \<and> fst (try_set_at I v g w) = 1)
   \<and> (\<not> m_released g \<longrightarrow> valid_index 0 g \<longrightarrow> valid_index I g \<longrightarrow>
      get g = Inr (m_resources g ! 0)
    \<and> get_at I g = Inr (m_resources g ! I)
    \<and> try_get g = Some (m_resources g ! 0)
    \<and> try_get_at I g = Some (m_resources g ! I)
    \<and> fst (try_set v g w) = 0
    \<and> fst (try_set_at I v g w) = 0)"
  by (simp add: get_def get_at_def set_first_def set_at_def steal_def try_get_def
        try_get_at_def try_set_def try_set_at_def)

theorem access_after_release_witness:
  "m_released (fst (release (make_scoped_ref close_fn [Val 5]) w0))
   \<and> get (fst (release (make_scoped_ref close_fn [Val 5]) w0)) = Inl (Logic_error ''Resource released'')
   \<and> try_get (fst (release (make_scoped_ref close_fn [Val 5]) w0)) = None
   \<and> fst (try_set (Val 6) (fst (release (make_scoped_ref close_fn [Val 5]) w0)) w0) = 1
   \<and> \<not> m_released (make_scoped_ref close_fn [Ptr 1, Val 3])
   \<and> valid_index 0 (make_scoped_ref close_fn [Ptr 1, Val 3])
   \<and> valid_index 1 (make_scoped_ref close_fn [Ptr 1, Val 3])
   \<and> get (make_scoped_ref close_fn [Ptr 1, Val 3]) = Inr (Ptr 1)
   \<and> get_at 1 (make_scoped_ref close_fn [Ptr 1, Val 3]) = Inr (Val 3)
   \<and> fst (try_set_at 1 (Val 7) (make_scoped_ref close_fn [Ptr 1, Val 3]) w0) = 0"
  using access_after_release [of "fst (release (make_scoped_ref close_fn [Val 5]) w0)" 0 "Val 6" w0]
        access_after_release [of "make_scoped_ref close_fn [Ptr 1, Val 3]" 1 "Val 7" w0]
        cleanup_marks_released [of "make_scoped_ref close_fn [Val 5]" w0]
  by (simp add: release_def make_scoped_ref_def valid_index_def)

text \<open>
  C5. The conversion to \<^verbatim>\<open>bool\<close> is true exactly when the guard is not released and
  every stored resource passes the validity check of its type; the check of a non-pointer
  type accepts every value, the check of a pointer type rejects the null pointer and
  nothing else. A live guard holding one null pointer converts to false, one holding a
  non-null pointer converts to true.
\<close>

theorem operator_bool_iff:
  "operator_bool g = (\<not> m_released g \<and> (\<forall>i < length (m_resources g). ValidityCheck (m_resources g ! i)))
   \<and> ValidityCheck (Val v)
   \<and> ValidityCheck (Ptr p) = (Ptr p \<noteq> Ptr 0)
   \<and> operator_bool (make_scoped_ref d [Ptr 0]) = False
   \<and> operator_bool (make_scoped_ref d [Ptr (Suc n)]) = True"
  by (simp add: operator_bool_def make_scoped_ref_def list_all_length)

theorem operator_bool_iff_witness:
  "operator_bool (make_scoped_ref close_fn [Ptr 1, Val 0])
   \<and> \<not> operator_bool (make_scoped_ref close_fn [Ptr 1, Ptr 0])
   \<and> \<not> operator_bool (fst (release (make_scoped_ref close_fn [Val 5]) w0))"
  using operator_bool_iff [of "make_scoped_ref close_fn [Ptr 1, Val 0]"]
        operator_bool_iff [of "make_scoped_ref close_fn [Ptr 1, Ptr 0]"]
        operator_bool_iff [of "fst (release (make_scoped_ref close_fn [Val 5]) w0)"]
  by (simp add: make_scoped_ref_def release_def cleanup_def apply_deleter_def less_Suc_eq
        all_conj_distrib)

text \<open>
  C6. On a guard that is not released, \<^verbatim>\<open>steal()\<close> returns all the stored resources in
  order, sets the flag and calls nothing; destroying the guard afterwards calls nothing
  either.
\<close>

theorem steal_returns_resources:
  assumes "\<not> m_released g"
  shows "steal g w = (Inr (m_resources g), g\<lparr>m_released := True\<rparr>, w)
         \<and> destructor (fst (snd (steal g w))) (snd (snd (steal g w))) = w"
  using assms by (simp add: steal_def moved_from_id destructor_released)

theorem steal_returns_resources_witness:
  "\<not> m_released (make_scoped_ref close_fn [Ptr 1, Val 7])
   \<and> fst (steal (make_scoped_ref close_fn [Ptr 1, Val 7]) w0) = Inr [Ptr 1, Val 7]
   \<and> m_released (fst (snd (steal (make_scoped_ref close_fn [Ptr 1, Val 7]) w0)))
   \<and> invocations
        (destructor (fst (snd (steal (make_scoped_ref close_fn [Ptr 1, Val 7]) w0)))
                    (snd (snd (steal (make_scoped_ref close_fn [Ptr 1, Val 7]) w0)))) = []"
  using steal_returns_resources [of "make_scoped_ref close_fn [Ptr 1, Val 7]" w0]
  by (simp add: make_scoped_ref_def w0_def destructor_def cleanup_def)

text \<open>
  C7. \<^verbatim>\<open>release()\<close> on a guard that is not released calls the cleanup routine once on
  the stored resources. When the routine throws, the exception ends in the handler: one
  line is written to \<^verbatim>\<open>std::cerr\<close> and \<^verbatim>\<open>release()\<close> returns as it does when the
  routine returns. In both cases the resources are value-initialised afterwards and the
  flag is set. The destructor leaves the same world.
\<close>

theorem release_swallows_failure:
  assumes "\<not> m_released g"
  shows "m_resources (fst (release g w)) = map value_init (m_resources g)
       \<and> m_released (fst (release g w))
       \<and> m_deleter (fst (release g w)) = m_deleter g
       \<and> invocations (snd (release g w)) = invocations w @ [(m_deleter g, m_resources g)]
       \<and> cerr (snd (release g w)) =
           (case del_body (m_deleter g) (m_resources g) of
              None \<Rightarrow> cerr w
            | Some e \<Rightarrow> cerr w @ [''Cleanup error - potential leak''])
       \<and> destructor g w = snd (release g w)"
  using assms
  by (simp add: release_def destructor_def cleanup_live split: option.split)

theorem release_swallows_failure_witness:
  "\<not> m_released (make_scoped_ref failing_fn [Ptr 1, Val 3])
   \<and> release (make_scoped_ref failing_fn [Ptr 1, Val 3]) w0 =
       (\<lparr>m_resources = [Ptr 0, Val 0], m_deleter = failing_fn, m_released = True\<rparr>,
        \<lparr>invocations = [(failing_fn, [Ptr 1, Val 3])],
         cerr = [''Cleanup error - potential leak'']\<rparr>)
   \<and> release (make_scoped_ref close_fn [Ptr 1, Val 3]) w0 =
       (\<lparr>m_resources = [Ptr 0, Val 0], m_deleter = close_fn, m_released = True\<rparr>,
        \<lparr>invocations = [(close_fn, [Ptr 1, Val 3])], cerr = []\<rparr>)"
  using release_swallows_failure [of "make_scoped_ref failing_fn [Ptr 1, Val 3]" w0]
        release_swallows_failure [of "make_scoped_ref close_fn [Ptr 1, Val 3]" w0]
  by (simp add: make_scoped_ref_def w0_def release_def cleanup_def apply_deleter_def
        failing_fn_def close_fn_def)

text \<open>
  C8. Move assignment between two different guards: the destination is released first
  (its cleanup routine is called on the resources it held, when it was not released
  yet; nothing is called when it was), then it receives the resources, the cleanup routine
  and the flag of the source, and the flag of the source is set; no other guard of the
  store changes. Assigning a guard to itself changes nothing and calls nothing.
\<close>

theorem move_assign_releases_then_transfers:
  "(this \<noteq> other \<longrightarrow>
      env (move_assign this other s) = snd (release (heap s this) (env s))
    \<and> (\<not> m_released (heap s this) \<longrightarrow>
         invocations (env (move_assign this other s)) =
           invocations (env s) @ [(m_deleter (heap s this), m_resources (heap s this))])
    \<and> (m_released (heap s this) \<longrightarrow> env (move_assign this other s) = env s)
    \<and> heap (move_assign this other s) this =
         \<lparr>m_resources = m_resources (heap s other),
          m_deleter = m_deleter (heap s other),
          m_released = m_released (heap s other)\<rparr>
    \<and> heap (move_assign this other s) other = (heap s other)\<lparr>m_released := True\<rparr>
    \<and> (\<forall>a. a \<noteq> this \<longrightarrow> a \<noteq> other \<longrightarrow> heap (move_assign this other s) a = heap s a))
   \<and> move_assign this this s = s"
  by (simp add: move_assign_distinct move_assign_self release_def cleanup_live cleanup_released)

theorem move_assign_releases_then_transfers_witness:
  "(0::nat) \<noteq> 1
   \<and> \<not> m_released (heap two_guards 0)
   \<and> invocations (env (move_assign 0 1 two_guards)) = [(close_fn, [Val 5])]
   \<and> heap (move_assign 0 1 two_guards) 0 = make_scoped_ref failing_fn [Val 7]
   \<and> m_released (heap (move_assign 0 1 two_guards) 1)
   \<and> heap (move_assign 0 1 two_guards) 2 = heap two_guards 2
   \<and> move_assign 0 0 two_guards = two_guards"
  using move_assign_releases_then_transfers [of 0 1 two_guards]
        move_assign_releases_then_transfers [of 0 0 two_guards]
  by (simp add: two_guards_def make_scoped_ref_def w0_def release_def cleanup_def
        apply_deleter_def close_fn_def failing_fn_def)

text \<open>
  C9. On a guard that is not released, with an index the \<^verbatim>\<open>static_assert\<close> accepts,
  \<^verbatim>\<open>set<I>(v)\<close> and \<^verbatim>\<open>try_set<I>(v)\<close> (and \<^verbatim>\<open>set(v)\<close>, \<^verbatim>\<open>try_set(v)\<close> at position 0)
  store \<open>v\<close> at that position and change nothing else: the other positions, the number of
  resources, the cleanup routine and the flag are as before, and the world is unchanged,
  so the cleanup routine is not called, not on the overwritten value either. A later
  \<^verbatim>\<open>release()\<close> or destruction calls the cleanup routine on the updated resources.
\<close>

theorem set_replaces_one_position:
  assumes "\<not> m_released g" and "valid_index I g" and "valid_index 0 g"
  shows "set_at I v g w = (Inr (), g\<lparr>m_resources := (m_resources g)[I := v]\<rparr>, w)
       \<and> try_set_at I v g w = (0, g\<lparr>m_resources := (m_resources g)[I := v]\<rparr>, w)
       \<and> set_first v g w = (Inr (), g\<lparr>m_resources := (m_resources g)[0 := v]\<rparr>, w)
       \<and> try_set v g w = (0, g\<lparr>m_resources := (m_resources g)[0 := v]\<rparr>, w)
       \<and> m_resources (fst (snd (set_at I v g w))) ! I = v
       \<and> (\<forall>j. j \<noteq> I \<longrightarrow> m_resources (fst (snd (set_at I v g w))) ! j = m_resources g ! j)
       \<and> length (m_resources (fst (snd (set_at I v g w)))) = length (m_resources g)
       \<and> invocations (destructor (fst (snd (set_at I v g w))) (snd (snd (set_at I v g w)))) =
           invocations w @ [(m_deleter g, (m_resources g)[I := v])]
       \<and> invocations (snd (release (fst (snd (set_at I v g w))) (snd (snd (set_at I v g w))))) =
           invocations w @ [(m_deleter g, (m_resources g)[I := v])]"
  using assms
  by (simp add: set_at_def try_set_at_def set_first_def try_set_def valid_index_def
        destructor_live release_def cleanup_live)

theorem set_replaces_one_position_witness:
  "\<not> m_released (make_scoped_ref close_fn [Ptr 1, Val 3])
   \<and> valid_index 1 (make_scoped_ref close_fn [Ptr 1, Val 3])
   \<and> valid_index 0 (make_scoped_ref close_fn [Ptr 1, Val 3])
   \<and> try_get_at 1 (make_scoped_ref close_fn [Ptr 1, Val 3]) = Some (Val 3)
   \<and> set_at 1 (Val 7) (make_scoped_ref close_fn [Ptr 1, Val 3]) w0 =
       (Inr (), make_scoped_ref close_fn [Ptr 1, Val 7], w0)
   \<and> try_get_at 1 (make_scoped_ref close_fn [Ptr 1, Val 7]) = Some (Val 7)
   \<and> invocations (destructor (make_scoped_ref close_fn [Ptr 1, Val 7]) w0)
       = [(close_fn, [Ptr 1, Val 7])]"
  using set_replaces_one_position [of "make_scoped_ref close_fn [Ptr 1, Val 3]" 1 "Val 7" w0]
  by (simp add: make_scoped_ref_def valid_index_def w0_def try_get_at_def
        destructor_def cleanup_def apply_deleter_def close_fn_def)

text \<open>
  C10. On a released guard the operations that fail change nothing: \<^verbatim>\<open>set(v)\<close>,
  \<^verbatim>\<open>set<I>(v)\<close> and \<^verbatim>\<open>steal()\<close> throw and leave the guard (resources, cleanup routine,
  flag) and the world exactly as they were; \<^verbatim>\<open>get()\<close> and \<^verbatim>\<open>get<I>()\<close> throw, and being
  \<^verbatim>\<open>const\<close> they cannot change the guard. Running the three one after the other leaves
  everything as it was.
\<close>

theorem failing_operations_change_nothing:
  assumes "m_released g"
  shows "get g = Inl (Logic_error ''Resource released'')
       \<and> get_at I g = Inl (Logic_error ''Resource released'')
       \<and> set_first v g w = (Inl (Logic_error ''Resource released''), g, w)
       \<and> set_at I v g w = (Inl (Logic_error ''Resource released''), g, w)
       \<and> steal g w = (Inl (Logic_error ''Already released''), g, w)
       \<and> run [Get I, Set I v, Steal] (g, w) = (g, w)"
  using assms by (simp add: get_def get_at_def set_first_def set_at_def steal_def)

theorem failing_operations_change_nothing_witness:
  "m_released \<lparr>m_resources = [Val 0], m_deleter = close_fn, m_released = True\<rparr>
   \<and> set_at 0 (Val 9) \<lparr>m_resources = [Val 0], m_deleter = close_fn, m_released = True\<rparr> w0 =
       (Inl (Logic_error ''Resource released''),
        \<lparr>m_resources = [Val 0], m_deleter = close_fn, m_released = True\<rparr>, w0)
   \<and> steal \<lparr>m_resources = [Val 0], m_deleter = close_fn, m_released = True\<rparr> w0 =
       (Inl (Logic_error ''Already released''),
        \<lparr>m_resources = [Val 0], m_deleter = close_fn, m_released = True\<rparr>, w0)"
  using failing_operations_change_nothing
          [of "\<lparr>m_resources = [Val 0], m_deleter = close_fn, m_released = True\<rparr>" 0 "Val 9" w0]
  by simp

end
